theory Spec2Isabelle
  imports Main
begin

section \<open>Values, dictionaries and the object store\<close>

text \<open>
  The migration operations of \<^verbatim>\<open>populus/migrations/operations.py\<close> work on Python
  dictionaries (the transaction specs), which are objects that are shared by reference
  and updated in place. A dictionary is a partial map from field names to values; the
  dictionaries that exist live in a store, and an operation holds the reference of its
  transaction spec, as the Python object does.
\<close>

datatype val = VInt int | VText string | VBytes string

type_synonym dict = "string \<rightharpoonup> val"

type_synonym ref = nat

type_synonym hash = string

type_synonym address = string

text \<open>
  Every failure of the source is a \<^verbatim>\<open>ValueError\<close> with its message, a
  \<^verbatim>\<open>KeyError\<close> of a subscript, or the \<^verbatim>\<open>NotImplementedError\<close> of the base class.
  An exception raised inside a collaborator (the network client, the compiler) is a
  \<open>ClientError\<close>.
\<close>

datatype error =
    ValueError string
  | KeyError string
  | NotImplementedError string
  | ClientError string

text \<open>The contract object that \<^verbatim>\<open>web3.eth.contract(...)\<close> builds from an artifact.\<close>

record contract =
  c_address :: "address option"
  c_abi :: val
  c_code :: val
  c_code_runtime :: val
  c_source :: val

text \<open>
  The calls an operation makes to the network, in the order they are made. A call that
  receives a dictionary is recorded with the contents the dictionary has at the call.
\<close>

datatype event =
    EvSendTransaction dict
  | EvEstimateGas dict
  | EvGetBlockGasLimit
  | EvDeploy contract dict "val list"
  | EvEstimateGasMethod contract dict string "val list"
  | EvTransact contract dict string "val list"
  | EvWaitForReceipt hash int
  | EvGetContractAddress hash int
  | EvGetCode address

record world =
  heap :: "ref \<Rightarrow> dict"
  next_ref :: ref
  log :: "event list"

text \<open>
  The collaborators, outside the repository: what the network client, the helpers of
  \<^verbatim>\<open>populus.utils.transactions\<close>, \<^verbatim>\<open>force_text\<close> and the compiler answer. Each may raise.
  They read the dictionaries they are given and do not update them.
\<close>

record client =
  sendTransaction :: "dict \<Rightarrow> error + hash"
  estimateGas :: "dict \<Rightarrow> error + int"
  get_block_gas_limit :: "error + int"
  encodeConstructorData :: "contract \<Rightarrow> val list \<Rightarrow> error + val"
  deploy :: "contract \<Rightarrow> dict \<Rightarrow> val list \<Rightarrow> error + hash"
  estimateGas_method :: "contract \<Rightarrow> dict \<Rightarrow> string \<Rightarrow> val list \<Rightarrow> error + int"
  transact_method :: "contract \<Rightarrow> dict \<Rightarrow> string \<Rightarrow> val list \<Rightarrow> error + hash"
  wait_for_transaction_receipt :: "hash \<Rightarrow> int \<Rightarrow> error + unit"
  get_contract_address_from_txn :: "hash \<Rightarrow> int \<Rightarrow> error + address"
  getCode :: "address \<Rightarrow> error + val"
  force_text :: "val \<Rightarrow> error + string"
  compile_source :: "string \<Rightarrow> error + (string \<rightharpoonup> dict)"
  REGISTRAR_SOURCE :: string

section \<open>Computations that may raise and that change the store\<close>

type_synonym 'a prog = "world \<Rightarrow> (error + 'a) \<times> world"

definition op_return :: "'a \<Rightarrow> 'a prog" where
  "op_return x w = (Inr x, w)"

definition op_raise :: "error \<Rightarrow> 'a prog" where
  "op_raise e w = (Inl e, w)"

definition op_bind :: "'a prog \<Rightarrow> ('a \<Rightarrow> 'b prog) \<Rightarrow> 'b prog" where
  "op_bind m f w = (case m w of (Inl e, w') \<Rightarrow> (Inl e, w') | (Inr x, w') \<Rightarrow> f x w')"

text \<open>A call of a collaborator that does not reach the network.\<close>

definition local_call :: "error + 'a \<Rightarrow> 'a prog" where
  "local_call r w = (r, w)"

text \<open>A call to the network: it is recorded, whatever it answers.\<close>

definition network_call :: "event \<Rightarrow> error + 'a \<Rightarrow> 'a prog" where
  "network_call ev r w = (r, w\<lparr>log := log w @ [ev]\<rparr>)"

text \<open>\<^verbatim>\<open>{}\<close> and \<^verbatim>\<open>dict(**d)\<close>: a new dictionary object.\<close>

definition new_dict :: "dict \<Rightarrow> ref prog" where
  "new_dict d w =
     (Inr (next_ref w), w\<lparr>heap := (heap w)(next_ref w := d), next_ref := Suc (next_ref w)\<rparr>)"

definition dict_read :: "ref \<Rightarrow> dict prog" where
  "dict_read r w = (Inr (heap w r), w)"

definition dict_copy :: "ref \<Rightarrow> ref prog" where
  "dict_copy r = op_bind (dict_read r) new_dict"

text \<open>\<^verbatim>\<open>d[k] = v\<close> updates the object in place.\<close>

definition dict_setitem :: "ref \<Rightarrow> string \<Rightarrow> val \<Rightarrow> unit prog" where
  "dict_setitem r k v w = (Inr (), w\<lparr>heap := (heap w)(r := (heap w r)(k \<mapsto> v))\<rparr>)"

text \<open>\<^verbatim>\<open>d[k]\<close> on a dictionary that is only read.\<close>

definition getitem :: "(string \<rightharpoonup> 'a) \<Rightarrow> string \<Rightarrow> 'a prog" where
  "getitem d k = (case d k of None \<Rightarrow> op_raise (KeyError k) | Some v \<Rightarrow> op_return v)"

text \<open>A keyword argument with a default: left out by the caller, or given.\<close>

datatype 'a arg = Omitted | Given 'a

fun arg_default :: "'a \<Rightarrow> 'a arg \<Rightarrow> 'a" where
  "arg_default d Omitted = d"
| "arg_default d (Given x) = x"

text \<open>\<^verbatim>\<open>sep.join(parts)\<close>\<close>

fun join :: "string \<Rightarrow> string list \<Rightarrow> string" where
  "join sep [] = []"
| "join sep [x] = x"
| "join sep (x # y # ys) = x @ sep @ join sep (y # ys)"

section \<open>Results of an operation\<close>

text \<open>
  Modelled from the spec: \<^verbatim>\<open>Address.defer\<close> of \<^verbatim>\<open>populus/migrations/registrar.py\<close>, which
  is not among the sources. The spec describes a deferred value as a key together with
  a resolver that yields the value; \<^verbatim>\<open>defer(key, value)\<close> makes the one that resolves
  to \<open>value\<close>.
\<close>

datatype deferred = DeferredValue (key: string) (resolver: "unit \<Rightarrow> address")

definition Address_defer :: "string \<Rightarrow> address \<Rightarrow> deferred" where
  "Address_defer k v = DeferredValue k (\<lambda>_. v)"

definition resolve :: "deferred \<Rightarrow> address" where
  "resolve d = resolver d ()"

datatype rval = RHash hash | RAddress address | RDeferred deferred

type_synonym result = "string \<rightharpoonup> rval"

section \<open>The operations\<close>

subsection \<open>Operation and RunPython\<close>

record kwargs =
  web3 :: client
  compiled_contracts :: "string \<rightharpoonup> dict"

definition Operation_execute :: "kwargs \<Rightarrow> result prog" where
  "Operation_execute kw =
     op_raise (NotImplementedError
       ''The `execute` method must be implemented by each Operation subclass'')"

record RunPython =
  callback :: "kwargs \<Rightarrow> result prog"


definition RunPython_execute :: "RunPython \<Rightarrow> kwargs \<Rightarrow> result prog" where
  "RunPython_execute self kw = callback self kw"

subsection \<open>SendTransaction\<close>

record SendTransaction =
  st_transaction :: ref
  st_timeout :: "int option"

text \<open>
  The class attribute \<^verbatim>\<open>timeout = 30\<close> is what an instance reads when the constructor
  does not assign \<^verbatim>\<open>self.timeout\<close>, which is when the argument is \<^verbatim>\<open>None\<close>.
\<close>

definition SendTransaction_init :: "ref \<Rightarrow> int option arg \<Rightarrow> SendTransaction" where
  "SendTransaction_init transaction timeout_arg =
     (let timeout = arg_default (Some 120) timeout_arg in
      \<lparr>st_transaction = transaction,
       st_timeout = (if timeout \<noteq> None then timeout else Some 30)\<rparr>)"

definition SendTransaction_execute :: "SendTransaction \<Rightarrow> client \<Rightarrow> result prog" where
  "SendTransaction_execute self web3c =
     op_bind (dict_read (st_transaction self)) (\<lambda>txn.
     op_bind (network_call (EvSendTransaction txn) (sendTransaction web3c txn))
       (\<lambda>transaction_hash.
     op_bind (case st_timeout self of
                Some t \<Rightarrow> network_call (EvWaitForReceipt transaction_hash t)
                            (wait_for_transaction_receipt web3c transaction_hash t)
              | None \<Rightarrow> op_return ()) (\<lambda>_.
     op_return [''transaction-hash'' \<mapsto> RHash transaction_hash])))"

subsection \<open>DeployContract\<close>

record DeployContract =
  dc_contract_name :: string
  dc_auto_gas :: bool
  dc_transaction :: ref
  dc_arguments :: "val list"
  dc_verify :: bool
  dc_timeout :: "int option"

definition DeployContract_init ::
  "string \<Rightarrow> ref option arg \<Rightarrow> val list option arg \<Rightarrow> bool arg \<Rightarrow> bool arg \<Rightarrow>
   int option arg \<Rightarrow> DeployContract prog" where
  "DeployContract_init contract_name transaction_arg arguments_arg verify_arg auto_gas_arg
     timeout_arg =
     (let transaction = arg_default None transaction_arg;
          arguments = arg_default None arguments_arg;
          verify = arg_default True verify_arg;
          auto_gas = arg_default True auto_gas_arg;
          timeout = arg_default (Some 120) timeout_arg in
      if timeout = None \<and> verify then
        op_raise (ValueError
          (''Invalid configuration.  When verifying a contracts deployment, '' @
           ''the timeout value must be set.''))
      else
        op_bind (case transaction of None \<Rightarrow> new_dict Map.empty | Some r \<Rightarrow> op_return r)
          (\<lambda>transaction.
        op_bind (dict_read transaction) (\<lambda>txn.
        if ''data'' \<in> dom txn \<or> ''to'' \<in> dom txn then
          op_raise (ValueError
            (''Invalid configuration.  You cannot specify `data` or `to` '' @
             ''values in `DeployContract` transactions.''))
        else if auto_gas \<and> ''gas'' \<in> dom txn then
          op_raise (ValueError
            (''Invalid configuration.  Cannot use `auto_gas` when specifying '' @
             ''a gas value for a transaction''))
        else
          op_return
            \<lparr>dc_contract_name = contract_name,
             dc_auto_gas = auto_gas,
             dc_transaction = transaction,
             dc_arguments = (case arguments of None \<Rightarrow> [] | Some xs \<Rightarrow> xs),
             dc_verify = verify,
             dc_timeout = timeout\<rparr>)))"

definition contract_of :: "address option \<Rightarrow> dict \<Rightarrow> contract prog" where
  "contract_of addr contract_data =
     op_bind (getitem contract_data ''abi'') (\<lambda>abi.
     op_bind (getitem contract_data ''code'') (\<lambda>code.
     op_bind (getitem contract_data ''code_runtime'') (\<lambda>code_runtime.
     op_bind (getitem contract_data ''source'') (\<lambda>source.
     op_return \<lparr>c_address = addr, c_abi = abi, c_code = code,
                c_code_runtime = code_runtime, c_source = source\<rparr>))))"

definition DeployContract_execute ::
  "DeployContract \<Rightarrow> client \<Rightarrow> (string \<rightharpoonup> dict) \<Rightarrow> result prog" where
  "DeployContract_execute self web3c compiled =
     op_bind (getitem compiled (dc_contract_name self)) (\<lambda>contract_data.
     op_bind (contract_of None contract_data) (\<lambda>ContractFactory.
     op_bind (dict_copy (dc_transaction self)) (\<lambda>deploy_transaction.
     op_bind
       (if dc_auto_gas self then
          op_bind (dict_copy (dc_transaction self)) (\<lambda>gas_estimate_transaction.
          op_bind (local_call (encodeConstructorData web3c ContractFactory (dc_arguments self)))
            (\<lambda>deploy_data.
          op_bind (dict_setitem gas_estimate_transaction ''data'' deploy_data) (\<lambda>_.
          op_bind (dict_read gas_estimate_transaction) (\<lambda>est_txn.
          op_bind (network_call (EvEstimateGas est_txn) (estimateGas web3c est_txn))
            (\<lambda>gas_estimate.
          op_bind (network_call EvGetBlockGasLimit (get_block_gas_limit web3c)) (\<lambda>gas_limit.
          if gas_estimate > gas_limit then
            op_raise (ValueError
              (''Contract does not appear to be delpoyable within the '' @
               ''current network gas limits''))
          else
            dict_setitem deploy_transaction ''gas''
              (VInt (min gas_limit (gas_estimate + 100000)))))))))
        else op_return ()) (\<lambda>_.
     op_bind (dict_read deploy_transaction) (\<lambda>txn.
     op_bind (network_call (EvDeploy ContractFactory txn (dc_arguments self))
                (deploy web3c ContractFactory txn (dc_arguments self)))
       (\<lambda>deploy_transaction_hash.
     case dc_timeout self of
       Some t \<Rightarrow>
         op_bind (network_call (EvGetContractAddress deploy_transaction_hash t)
                    (get_contract_address_from_txn web3c deploy_transaction_hash t))
           (\<lambda>contract_address.
         op_bind
           (if dc_verify self then
              op_bind (network_call (EvGetCode contract_address)
                         (getCode web3c contract_address)) (\<lambda>code.
              op_bind (local_call (force_text web3c code)) (\<lambda>code_text.
              op_bind (local_call (force_text web3c (c_code_runtime ContractFactory)))
                (\<lambda>runtime_text.
              if code_text \<noteq> runtime_text then
                op_raise (ValueError ''An error occured during deployment of the contract.'')
              else op_return ())))
            else op_return ()) (\<lambda>_.
         op_return
           [''contract-address'' \<mapsto> RAddress contract_address,
            ''deploy-transaction-hash'' \<mapsto> RHash deploy_transaction_hash,
            ''canonical-contract-address'' \<mapsto>
               RDeferred (Address_defer (join ''/'' [''contract'', dc_contract_name self])
                            contract_address)]))
     | None \<Rightarrow>
         op_return [''deploy-transaction-hash'' \<mapsto> RHash deploy_transaction_hash]))))))"

subsection \<open>TransactContract\<close>

record TransactContract =
  tc_contract_address :: "address option"
  tc_contract_name :: string
  tc_method_name :: string
  tc_auto_gas :: bool
  tc_arguments :: "val list"
  tc_transaction :: ref
  tc_timeout :: "int option"

text \<open>
  The constructor assigns \<^verbatim>\<open>self.auto_gas = auto_gas\<close> first and, once the
  configuration is accepted, \<^verbatim>\<open>self.auto_gas = True\<close>: the object it returns holds the
  second value. The check of the configuration reads the argument.
\<close>

definition TransactContract_init ::
  "string \<Rightarrow> string \<Rightarrow> val list option arg \<Rightarrow> ref option arg \<Rightarrow> address option arg \<Rightarrow>
   bool arg \<Rightarrow> int option arg \<Rightarrow> TransactContract prog" where
  "TransactContract_init contract_name method_name arguments_arg transaction_arg
     contract_address_arg auto_gas_arg timeout_arg =
     (let arguments = arg_default None arguments_arg;
          transaction = arg_default None transaction_arg;
          contract_address = arg_default None contract_address_arg;
          auto_gas = arg_default True auto_gas_arg;
          timeout = arg_default (Some 120) timeout_arg in
      op_bind (case transaction of None \<Rightarrow> new_dict Map.empty | Some r \<Rightarrow> op_return r)
        (\<lambda>transaction.
      op_bind (dict_read transaction) (\<lambda>txn.
      if auto_gas \<and> ''gas'' \<in> dom txn then
        op_raise (ValueError
          (''Invalid configuration.  Cannot use `auto_gas` when specifying '' @
           ''a gas value for a transaction''))
      else
        op_return
          \<lparr>tc_contract_address = contract_address,
           tc_contract_name = contract_name,
           tc_method_name = method_name,
           tc_auto_gas = True,
           tc_arguments = (case arguments of None \<Rightarrow> [] | Some xs \<Rightarrow> xs),
           tc_transaction = transaction,
           tc_timeout = timeout\<rparr>)))"

definition TransactContract_execute ::
  "TransactContract \<Rightarrow> client \<Rightarrow> (string \<rightharpoonup> dict) \<Rightarrow> result prog" where
  "TransactContract_execute self web3c compiled =
     op_bind (getitem compiled (tc_contract_name self)) (\<lambda>contract_data.
     op_bind (contract_of (tc_contract_address self) contract_data) (\<lambda>contract.
     op_bind (dict_copy (tc_transaction self)) (\<lambda>transaction.
     op_bind
       (if tc_auto_gas self then
          op_bind (dict_copy (tc_transaction self)) (\<lambda>gas_estimate_txn.
          op_bind (dict_read gas_estimate_txn) (\<lambda>est_txn.
          op_bind (network_call
                     (EvEstimateGasMethod contract est_txn (tc_method_name self)
                        (tc_arguments self))
                     (estimateGas_method web3c contract est_txn (tc_method_name self)
                        (tc_arguments self))) (\<lambda>gas_estimate.
          op_bind (network_call EvGetBlockGasLimit (get_block_gas_limit web3c)) (\<lambda>gas_limit.
          if gas_estimate > gas_limit then
            op_raise (ValueError
              ''Contract transaction appears to execeed the block gas limit'')
          else
            dict_setitem transaction ''gas''
              (VInt (min gas_limit (gas_estimate + 100000)))))))
        else op_return ()) (\<lambda>_.
     op_bind (dict_read (tc_transaction self)) (\<lambda>txn.
     op_bind (network_call
                (EvTransact contract txn (tc_method_name self) (tc_arguments self))
                (transact_method web3c contract txn (tc_method_name self)
                   (tc_arguments self))) (\<lambda>transaction_hash.
     op_bind (case tc_timeout self of
                Some t \<Rightarrow> network_call (EvWaitForReceipt transaction_hash t)
                            (wait_for_transaction_receipt web3c transaction_hash t)
              | None \<Rightarrow> op_return ()) (\<lambda>_.
     op_return [''deploy-transaction-hash'' \<mapsto> RHash transaction_hash])))))))"

subsection \<open>DeployRegistrar\<close>

definition DeployRegistrar_init ::
  "ref option arg \<Rightarrow> val list option arg \<Rightarrow> bool arg \<Rightarrow> bool arg \<Rightarrow> int option arg \<Rightarrow>
   DeployContract prog" where
  "DeployRegistrar_init transaction_arg arguments_arg verify_arg auto_gas_arg timeout_arg =
     DeployContract_init ''Registrar'' transaction_arg arguments_arg verify_arg auto_gas_arg
       timeout_arg"

definition DeployRegistrar_execute :: "DeployContract \<Rightarrow> client \<Rightarrow> result prog" where
  "DeployRegistrar_execute self web3c =
     op_bind (local_call (compile_source web3c (REGISTRAR_SOURCE web3c))) (\<lambda>compiled.
     DeployContract_execute self web3c compiled)"

subsection \<open>Dispatch on the class of the operation\<close>

datatype operation =
    OpOperation
  | OpRunPython RunPython
  | OpSendTransaction SendTransaction
  | OpDeployContract DeployContract
  | OpTransactContract TransactContract
  | OpDeployRegistrar DeployContract

fun execute :: "operation \<Rightarrow> kwargs \<Rightarrow> result prog" where
  "execute OpOperation kw = Operation_execute kw"
| "execute (OpRunPython self) kw = RunPython_execute self kw"
| "execute (OpSendTransaction self) kw = SendTransaction_execute self (web3 kw)"
| "execute (OpDeployContract self) kw =
     DeployContract_execute self (web3 kw) (compiled_contracts kw)"
| "execute (OpTransactContract self) kw =
     TransactContract_execute self (web3 kw) (compiled_contracts kw)"
| "execute (OpDeployRegistrar self) kw = DeployRegistrar_execute self (web3 kw)"

section \<open>Observations on a run\<close>

text \<open>
  The errors that the constructors raise all carry a message that starts with
  \<^verbatim>\<open>Invalid configuration.\<close>; these are the configuration errors.
\<close>

fun configuration_error :: "error \<Rightarrow> bool" where
  "configuration_error (ValueError m) = (take 22 m = ''Invalid configuration.'')"
| "configuration_error _ = False"

text \<open>The network calls that a run added to the record.\<close>

definition new_events :: "world \<Rightarrow> world \<Rightarrow> event list" where
  "new_events w w' = drop (length (log w)) (log w')"

text \<open>
  The calls that hand a transaction to the network, and the transactions they carry:
  \<^verbatim>\<open>sendTransaction\<close>, \<^verbatim>\<open>deploy\<close> and a method call through \<^verbatim>\<open>transact\<close>.
\<close>

fun submission :: "event \<Rightarrow> dict option" where
  "submission (EvSendTransaction t) = Some t"
| "submission (EvDeploy c t a) = Some t"
| "submission (EvTransact c t m a) = Some t"
| "submission _ = None"

definition submitted :: "event list \<Rightarrow> dict list" where
  "submitted evs = List.map_filter submission evs"

definition gas_field :: "dict \<Rightarrow> val option" where
  "gas_field t = t ''gas''"




text \<open>The transaction spec an operation holds, for the classes that hold one.\<close>

fun transaction_ref :: "operation \<Rightarrow> ref option" where
  "transaction_ref OpOperation = None"
| "transaction_ref (OpRunPython self) = None"
| "transaction_ref (OpSendTransaction self) = Some (st_transaction self)"
| "transaction_ref (OpDeployContract self) = Some (dc_transaction self)"
| "transaction_ref (OpTransactContract self) = Some (tc_transaction self)"
| "transaction_ref (OpDeployRegistrar self) = Some (dc_transaction self)"

section \<open>A test network\<close>

text \<open>
  A client with fixed answers, the artifact of a \<^verbatim>\<open>Greeter\<close> contract, and the two
  operations of the scenarios of the specification: deploying \<^verbatim>\<open>Greeter\<close> and calling
  \<^verbatim>\<open>setGreeting\<close> on it. The theorems below are run on them.
\<close>

definition greeter_artifact :: dict where
  "greeter_artifact =
     [''abi'' \<mapsto> VText ''[]'', ''code'' \<mapsto> VText ''0x6060'',
      ''code_runtime'' \<mapsto> VText ''0x60'', ''source'' \<mapsto> VText ''contract Greeter {}'']"

definition greeter_compiled :: "string \<rightharpoonup> dict" where
  "greeter_compiled = [''Greeter'' \<mapsto> greeter_artifact]"

definition greeter_contract :: "address option \<Rightarrow> contract" where
  "greeter_contract a =
     \<lparr>c_address = a, c_abi = VText ''[]'', c_code = VText ''0x6060'',
      c_code_runtime = VText ''0x60'', c_source = VText ''contract Greeter {}''\<rparr>"

fun text_of :: "val \<Rightarrow> error + string" where
  "text_of (VText s) = Inr s"
| "text_of (VBytes s) = Inr s"
| "text_of (VInt i) = Inl (ClientError ''TypeError'')"

definition test_client :: client where
  "test_client =
     \<lparr>sendTransaction = (\<lambda>_. Inr ''0xaa''),
      estimateGas = (\<lambda>_. Inr 50000),
      get_block_gas_limit = Inr 3141592,
      encodeConstructorData = (\<lambda>_ _. Inr (VText ''0x6060'')),
      deploy = (\<lambda>_ _ _. Inr ''0xbb''),
      estimateGas_method = (\<lambda>_ _ _ _. Inr 30000),
      transact_method = (\<lambda>_ _ _ _. Inr ''0xcc''),
      wait_for_transaction_receipt = (\<lambda>_ _. Inr ()),
      get_contract_address_from_txn = (\<lambda>_ _. Inr ''0xc0de''),
      getCode = (\<lambda>_. Inr (VText ''0x60'')),
      force_text = text_of,
      compile_source = (\<lambda>_. Inr [''Registrar'' \<mapsto> greeter_artifact]),
      REGISTRAR_SOURCE = ''contract Registrar {}''\<rparr>"

text \<open>The same network with a block gas limit below both estimates.\<close>

definition low_limit_client :: client where
  "low_limit_client = test_client\<lparr>get_block_gas_limit := Inr 20000\<rparr>"

text \<open>The same network, where the code found at the new address is not the artifact's.\<close>

definition wrong_code_client :: client where
  "wrong_code_client = test_client\<lparr>getCode := (\<lambda>_. Inr (VText ''0x00''))\<rparr>"

definition test_kwargs :: kwargs where
  "test_kwargs = \<lparr>web3 = test_client, compiled_contracts = greeter_compiled\<rparr>"

definition empty_world :: world where
  "empty_world = \<lparr>heap = (\<lambda>_. Map.empty), next_ref = 0, log = []\<rparr>"

text \<open>The store once a constructor has made the empty transaction spec.\<close>

definition one_dict_world :: world where
  "one_dict_world =
     \<lparr>heap = (\<lambda>_. Map.empty)(0 := Map.empty), next_ref = 1, log = []\<rparr>"

text \<open>A store that holds one transaction spec, with a \<^verbatim>\<open>gas\<close> field.\<close>

definition preset_gas_world :: world where
  "preset_gas_world =
     \<lparr>heap = (\<lambda>_. Map.empty)(0 := [''gas'' \<mapsto> VInt 90000]), next_ref = 1, log = []\<rparr>"

definition set_greeting :: TransactContract where
  "set_greeting =
     \<lparr>tc_contract_address = Some ''0xc0de'',
      tc_contract_name = ''Greeter'',
      tc_method_name = ''setGreeting'',
      tc_auto_gas = True,
      tc_arguments = [VText ''Guten Tag''],
      tc_transaction = 0,
      tc_timeout = Some 30\<rparr>"

definition deploy_greeter :: DeployContract where
  "deploy_greeter =
     \<lparr>dc_contract_name = ''Greeter'',
      dc_auto_gas = True,
      dc_transaction = 0,
      dc_arguments = [],
      dc_verify = True,
      dc_timeout = Some 30\<rparr>"

text \<open>The same deployment, not confirmed: no timeout, no verification.\<close>

definition deploy_greeter_unconfirmed :: DeployContract where
  "deploy_greeter_unconfirmed = deploy_greeter\<lparr>dc_verify := False, dc_timeout := None\<rparr>"

text \<open>A callback that does nothing and returns an empty mapping.\<close>

definition empty_result :: result where
  "empty_result = Map.empty"

definition empty_callback :: "kwargs \<Rightarrow> result prog" where
  "empty_callback kw = op_return empty_result"

section \<open>Properties\<close>

lemmas prog_defs = op_return_def op_raise_def op_bind_def local_call_def network_call_def
  new_dict_def dict_read_def dict_copy_def dict_setitem_def getitem_def

lemmas scenario_defs = greeter_artifact_def greeter_compiled_def greeter_contract_def
  test_client_def low_limit_client_def wrong_code_client_def test_kwargs_def empty_world_def
  one_dict_world_def preset_gas_world_def set_greeting_def deploy_greeter_def
  deploy_greeter_unconfirmed_def empty_callback_def empty_result_def


subsection \<open>Helper facts\<close>

lemma submitted_Nil: "submitted [] = []"
  by (simp add: submitted_def map_filter_def)

lemma submitted_Cons:
  "submitted (ev # evs) =
     (case submission ev of None \<Rightarrow> submitted evs | Some t \<Rightarrow> t # submitted evs)"
  by (simp add: submitted_def map_filter_def split: option.splits)

lemma submitted_append: "submitted (xs @ ys) = submitted xs @ submitted ys"
  by (simp add: submitted_def map_filter_def)

lemmas submitted_simps = submitted_Nil submitted_Cons submitted_append

lemma contract_of_Inr:
  "fst (contract_of a cd w) = Inr c \<Longrightarrow> contract_of a cd w' = (Inr c, w')"
  by (auto simp add: contract_of_def prog_defs split: option.splits)

lemma key_Address_defer: "key (Address_defer k v) = k"
  by (simp add: Address_defer_def)

lemma resolve_Address_defer: "resolve (Address_defer k v) = v"
  by (simp add: Address_defer_def resolve_def)

lemma greeter_contract_of:
  "contract_of a greeter_artifact w = (Inr (greeter_contract a), w)"
  by (simp add: contract_of_def prog_defs scenario_defs)

lemma set_greeting_init:
  "TransactContract_init ''Greeter'' ''setGreeting'' (Given (Some [VText ''Guten Tag'']))
     Omitted (Given (Some ''0xc0de'')) auto_gas_arg (Given (Some 30)) empty_world =
   (Inr set_greeting, one_dict_world)"
  by (simp add: TransactContract_init_def prog_defs scenario_defs)

lemma deploy_greeter_init:
  "DeployContract_init ''Greeter'' Omitted Omitted Omitted Omitted (Given (Some 30))
     empty_world = (Inr deploy_greeter, one_dict_world)"
  by (simp add: DeployContract_init_def prog_defs scenario_defs)

lemma DeployRegistrar_execute_cases:
  "DeployRegistrar_execute self web3c w =
     (case compile_source web3c (REGISTRAR_SOURCE web3c) of
        Inl e \<Rightarrow> (Inl e, w)
      | Inr compiled \<Rightarrow> DeployContract_execute self web3c compiled w)"
  by (simp add: DeployRegistrar_execute_def op_bind_def local_call_def split: sum.splits)

subsection \<open>The store outside the fresh copies\<close>

lemma SendTransaction_execute_frame:
  "r < next_ref w \<Longrightarrow> heap (snd (SendTransaction_execute self web3c w)) r = heap w r"
  by (simp add: SendTransaction_execute_def prog_defs
        split: sum.splits option.splits prod.splits)

lemma DeployContract_execute_frame:
  "r < next_ref w \<Longrightarrow>
   heap (snd (DeployContract_execute self web3c compiled w)) r = heap w r"
  unfolding DeployContract_execute_def contract_of_def
  by (auto simp add: prog_defs split: sum.splits option.splits prod.splits if_splits)

lemma TransactContract_execute_frame:
  "r < next_ref w \<Longrightarrow>
   heap (snd (TransactContract_execute self web3c compiled w)) r = heap w r"
  unfolding TransactContract_execute_def contract_of_def
  by (auto simp add: prog_defs split: sum.splits option.splits prod.splits if_splits)

lemma DeployRegistrar_execute_frame:
  "r < next_ref w \<Longrightarrow> heap (snd (DeployRegistrar_execute self web3c w)) r = heap w r"
  by (simp add: DeployRegistrar_execute_cases DeployContract_execute_frame split: sum.splits)

lemma DeployContract_init_frame:
  "r < next_ref w \<Longrightarrow>
   heap (snd (DeployContract_init contract_name transaction_arg arguments_arg verify_arg
                auto_gas_arg timeout_arg w)) r = heap w r"
  by (simp add: DeployContract_init_def prog_defs Let_def split: option.splits)

lemma TransactContract_init_frame:
  "r < next_ref w \<Longrightarrow>
   heap (snd (TransactContract_init contract_name method_name arguments_arg transaction_arg
                contract_address_arg auto_gas_arg timeout_arg w)) r = heap w r"
  by (simp add: TransactContract_init_def prog_defs Let_def split: option.splits)

text \<open>
  The spec that a constructor stores is a dictionary of the store: the one it was given,
  or the empty one it made.
\<close>

lemma DeployContract_init_allocated:
  assumes "DeployContract_init contract_name transaction_arg arguments_arg verify_arg
             auto_gas_arg timeout_arg w = (Inr self, w')"
    and "\<And>r. transaction_arg = Given (Some r) \<Longrightarrow> r < next_ref w"
  shows "dc_transaction self < next_ref w'"
proof (cases "arg_default None transaction_arg")
  case None
  with assms(1) show ?thesis
    by (auto simp add: DeployContract_init_def prog_defs Let_def split: if_splits)
next
  case (Some r)
  then have "transaction_arg = Given (Some r)"
    by (cases transaction_arg) simp_all
  then have "r < next_ref w" by (rule assms(2))
  with Some assms(1) show ?thesis
    by (auto simp add: DeployContract_init_def prog_defs Let_def split: if_splits)
qed

lemma TransactContract_init_allocated:
  assumes "TransactContract_init contract_name method_name arguments_arg transaction_arg
             contract_address_arg auto_gas_arg timeout_arg w = (Inr self, w')"
    and "\<And>r. transaction_arg = Given (Some r) \<Longrightarrow> r < next_ref w"
  shows "tc_transaction self < next_ref w'"
proof (cases "arg_default None transaction_arg")
  case None
  with assms(1) show ?thesis
    by (auto simp add: TransactContract_init_def prog_defs Let_def split: if_splits)
next
  case (Some r)
  then have "transaction_arg = Given (Some r)"
    by (cases transaction_arg) simp_all
  then have "r < next_ref w" by (rule assms(2))
  with Some assms(1) show ?thesis
    by (auto simp add: TransactContract_init_def prog_defs Let_def split: if_splits)
qed

subsection \<open>What is submitted\<close>

lemma DeployContract_submits:
  assumes "dc_auto_gas self"
    and "compiled (dc_contract_name self) = Some contract_data"
    and "fst (contract_of None contract_data w) = Inr factory"
    and "encodeConstructorData web3c factory (dc_arguments self) = Inr deploy_data"
    and "estimateGas web3c ((heap w (dc_transaction self))(''data'' \<mapsto> deploy_data)) = Inr E"
    and "get_block_gas_limit web3c = Inr L"
    and "E \<le> L"
  shows "submitted (new_events w (snd (DeployContract_execute self web3c compiled w))) =
           [(heap w (dc_transaction self))(''gas'' \<mapsto> VInt (min L (E + 100000)))]"
  using assms unfolding DeployContract_execute_def new_events_def
  by (auto simp add: prog_defs contract_of_Inr submitted_simps
        split: sum.splits option.splits prod.splits)

lemma TransactContract_submits:
  assumes "tc_transaction self < next_ref w"
    and "tc_auto_gas self"
    and "compiled (tc_contract_name self) = Some contract_data"
    and "fst (contract_of (tc_contract_address self) contract_data w) = Inr c"
    and "estimateGas_method web3c c (heap w (tc_transaction self)) (tc_method_name self)
           (tc_arguments self) = Inr E"
    and "get_block_gas_limit web3c = Inr L"
    and "E \<le> L"
  shows "submitted (new_events w (snd (TransactContract_execute self web3c compiled w))) =
           [heap w (tc_transaction self)]"
  using assms unfolding TransactContract_execute_def new_events_def
  by (auto simp add: prog_defs contract_of_Inr submitted_simps
        split: sum.splits option.splits prod.splits)

lemma DeployContract_over_limit:
  assumes "dc_auto_gas self"
    and "compiled (dc_contract_name self) = Some contract_data"
    and "fst (contract_of None contract_data w) = Inr factory"
    and "encodeConstructorData web3c factory (dc_arguments self) = Inr deploy_data"
    and "estimateGas web3c ((heap w (dc_transaction self))(''data'' \<mapsto> deploy_data)) = Inr E"
    and "get_block_gas_limit web3c = Inr L"
    and "L < E"
  shows "fst (DeployContract_execute self web3c compiled w) =
           Inl (ValueError (''Contract does not appear to be delpoyable within the '' @
               ''current network gas limits''))
         \<and> new_events w (snd (DeployContract_execute self web3c compiled w)) =
           [EvEstimateGas ((heap w (dc_transaction self))(''data'' \<mapsto> deploy_data)),
            EvGetBlockGasLimit]"
  using assms unfolding DeployContract_execute_def new_events_def
  by (simp add: prog_defs contract_of_Inr)

lemma TransactContract_over_limit:
  assumes "tc_auto_gas self"
    and "compiled (tc_contract_name self) = Some contract_data"
    and "fst (contract_of (tc_contract_address self) contract_data w) = Inr c"
    and "estimateGas_method web3c c (heap w (tc_transaction self)) (tc_method_name self)
           (tc_arguments self) = Inr E"
    and "get_block_gas_limit web3c = Inr L"
    and "L < E"
  shows "fst (TransactContract_execute self web3c compiled w) =
           Inl (ValueError ''Contract transaction appears to execeed the block gas limit'')
         \<and> new_events w (snd (TransactContract_execute self web3c compiled w)) =
           [EvEstimateGasMethod c (heap w (tc_transaction self)) (tc_method_name self)
              (tc_arguments self),
            EvGetBlockGasLimit]"
  using assms unfolding TransactContract_execute_def new_events_def
  by (simp add: prog_defs contract_of_Inr)

subsection \<open>The result of a successful run\<close>





subsection \<open>Construction\<close>

text \<open>
  C8. A \<^verbatim>\<open>DeployContract\<close> constructed with \<^verbatim>\<open>verify\<close> true (given, or left to its
  default) and \<^verbatim>\<open>timeout=None\<close> raises the configuration error of the first check of
  the constructor, whatever the other arguments are. The store and the record of network
  calls are as they were before: nothing was allocated and nothing was sent.
\<close>

theorem DeployContract_init_verify_needs_timeout:
  "DeployContract_init contract_name transaction_arg arguments_arg (Given True) auto_gas_arg
     (Given None) w =
     (Inl (ValueError (''Invalid configuration.  When verifying a contracts deployment, '' @
                       ''the timeout value must be set.'')), w)
   \<and> DeployContract_init contract_name transaction_arg arguments_arg Omitted auto_gas_arg
     (Given None) w =
     (Inl (ValueError (''Invalid configuration.  When verifying a contracts deployment, '' @
                       ''the timeout value must be set.'')), w)
   \<and> configuration_error
        (ValueError (''Invalid configuration.  When verifying a contracts deployment, '' @
                     ''the timeout value must be set.''))"
  by (simp add: DeployContract_init_def op_raise_def)

lemma DeployContract_init_auto_gas_conflict:
  assumes "arg_default True auto_gas_arg" and "''gas'' \<in> dom (heap w r)"
  shows "\<exists>e. DeployContract_init contract_name (Given (Some r)) arguments_arg verify_arg
            auto_gas_arg timeout_arg w = (Inl e, w) \<and> configuration_error e"
  using assms
  by (simp add: DeployContract_init_def prog_defs Let_def)

lemma TransactContract_init_auto_gas_conflict:
  assumes "arg_default True auto_gas_arg" and "''gas'' \<in> dom (heap w r)"
  shows "TransactContract_init contract_name method_name arguments_arg (Given (Some r))
            contract_address_arg auto_gas_arg timeout_arg w =
          (Inl (ValueError (''Invalid configuration.  Cannot use `auto_gas` when specifying '' @
             ''a gas value for a transaction'')), w)"
  using assms
  by (simp add: TransactContract_init_def prog_defs Let_def)

text \<open>
  C9. When \<^verbatim>\<open>auto_gas\<close> is true (given, or left to its default) and the transaction spec
  that is passed has a \<^verbatim>\<open>gas\<close> field, the constructors of \<^verbatim>\<open>DeployContract\<close> and of
  \<^verbatim>\<open>TransactContract\<close> raise a configuration error, and leave the store and the record of
  network calls as they were. For \<^verbatim>\<open>TransactContract\<close> the error is the one of the
  \<^verbatim>\<open>auto_gas\<close> check; for \<^verbatim>\<open>DeployContract\<close> an earlier check of the constructor may
  raise its own configuration error first.
\<close>

theorem auto_gas_with_preset_gas_rejected:
  assumes "arg_default True auto_gas_arg" and "''gas'' \<in> dom (heap w r)"
  shows "(\<exists>e. DeployContract_init contract_name (Given (Some r)) arguments_arg verify_arg
               auto_gas_arg timeout_arg w = (Inl e, w) \<and> configuration_error e)
       \<and> TransactContract_init tc_name method_name tc_arguments_arg (Given (Some r))
            contract_address_arg auto_gas_arg tc_timeout_arg w =
          (Inl (ValueError (''Invalid configuration.  Cannot use `auto_gas` when specifying '' @
             ''a gas value for a transaction'')), w)
       \<and> configuration_error
            (ValueError (''Invalid configuration.  Cannot use `auto_gas` when specifying '' @
               ''a gas value for a transaction''))"
  using DeployContract_init_auto_gas_conflict [OF assms]
    TransactContract_init_auto_gas_conflict [OF assms]
  by simp

theorem auto_gas_with_preset_gas_rejected_witness:
  "''gas'' \<in> dom (heap preset_gas_world 0)
   \<and> (\<exists>e. DeployContract_init ''Greeter'' (Given (Some 0)) Omitted Omitted (Given True)
            Omitted preset_gas_world = (Inl e, preset_gas_world) \<and> configuration_error e)
   \<and> TransactContract_init ''Greeter'' ''setGreeting'' Omitted (Given (Some 0))
        Omitted (Given True) Omitted preset_gas_world =
      (Inl (ValueError (''Invalid configuration.  Cannot use `auto_gas` when specifying '' @
             ''a gas value for a transaction'')), preset_gas_world)"
proof -
  have a: "arg_default True (Given True)" by simp
  have g: "''gas'' \<in> dom (heap preset_gas_world 0)" by (simp add: preset_gas_world_def)
  show ?thesis
    using g auto_gas_with_preset_gas_rejected [OF a g, where contract_name = "''Greeter''"
        and arguments_arg = Omitted and verify_arg = Omitted and timeout_arg = Omitted
        and tc_name = "''Greeter''" and method_name = "''setGreeting''"
        and tc_arguments_arg = Omitted and contract_address_arg = Omitted
        and tc_timeout_arg = Omitted]
    by simp
qed

lemma TransactContract_init_auto_gas:
  assumes "TransactContract_init contract_name method_name arguments_arg transaction_arg
             contract_address_arg auto_gas_arg timeout_arg w0 = (Inr self, w1)"
  shows "tc_auto_gas self"
  using assms
  by (auto simp add: TransactContract_init_def prog_defs Let_def
        split: option.splits if_splits)

lemma TransactContract_estimates_first:
  assumes "tc_auto_gas self"
    and "compiled (tc_contract_name self) = Some contract_data"
    and "fst (contract_of (tc_contract_address self) contract_data w) = Inr c"
  shows "\<exists>evs. new_events w (snd (TransactContract_execute self web3c compiled w)) =
           EvEstimateGasMethod c (heap w (tc_transaction self)) (tc_method_name self)
             (tc_arguments self) # evs"
  using assms unfolding TransactContract_execute_def new_events_def
  by (simp add: prog_defs contract_of_Inr split: sum.splits option.splits prod.splits)

lemma TransactContract_reads_limit:
  assumes "tc_auto_gas self"
    and "compiled (tc_contract_name self) = Some contract_data"
    and "fst (contract_of (tc_contract_address self) contract_data w) = Inr c"
    and "estimateGas_method web3c c (heap w (tc_transaction self)) (tc_method_name self)
           (tc_arguments self) = Inr E"
  shows "\<exists>evs. new_events w (snd (TransactContract_execute self web3c compiled w)) =
           EvEstimateGasMethod c (heap w (tc_transaction self)) (tc_method_name self)
             (tc_arguments self) # EvGetBlockGasLimit # evs"
  using assms unfolding TransactContract_execute_def new_events_def
  by (simp add: prog_defs contract_of_Inr split: sum.splits option.splits prod.splits)

lemma TransactContract_budget_written:
  assumes "tc_auto_gas self"
    and "compiled (tc_contract_name self) = Some contract_data"
    and "fst (contract_of (tc_contract_address self) contract_data w) = Inr c"
    and "estimateGas_method web3c c (heap w (tc_transaction self)) (tc_method_name self)
           (tc_arguments self) = Inr E"
    and "get_block_gas_limit web3c = Inr L"
    and "E \<le> L"
  shows "heap (snd (TransactContract_execute self web3c compiled w)) (next_ref w) =
           (heap w (tc_transaction self))(''gas'' \<mapsto> VInt (min L (E + 100000)))
         \<and> next_ref w < next_ref (snd (TransactContract_execute self web3c compiled w))"
  using assms unfolding TransactContract_execute_def
  by (simp add: prog_defs contract_of_Inr split: sum.splits option.splits prod.splits)

text \<open>
  C2. Whatever is passed for \<^verbatim>\<open>auto_gas\<close>, a \<^verbatim>\<open>TransactContract\<close> that its constructor
  returns has \<^verbatim>\<open>auto_gas\<close> true. Its \<^verbatim>\<open>execute\<close>, once the contract is found among the
  compiled contracts, therefore budgets the gas. The first call it makes to the network
  is the gas estimate of the method call, with a copy of the stored transaction spec.
  When the estimate is answered, \<open>E\<close>, the second call reads the block gas limit. When
  that is answered, \<open>L\<close>: if \<open>L < E\<close>, \<^verbatim>\<open>execute\<close> raises the gas-limit \<^verbatim>\<open>ValueError\<close> and
  has made no other call; if \<open>E \<le> L\<close>, the first copy that \<^verbatim>\<open>execute\<close> made of the
  stored spec, a new object of the store, holds that spec with its \<^verbatim>\<open>gas\<close> field set
  to \<open>min L (E + 100000)\<close> when \<^verbatim>\<open>execute\<close> ends.
\<close>

theorem TransactContract_auto_gas_forced:
  assumes "TransactContract_init contract_name method_name arguments_arg transaction_arg
             contract_address_arg auto_gas_arg timeout_arg w0 = (Inr self, w1)"
    and "compiled (tc_contract_name self) = Some contract_data"
    and "fst (contract_of (tc_contract_address self) contract_data w) = Inr c"
  shows "tc_auto_gas self
       \<and> (\<exists>evs. new_events w (snd (TransactContract_execute self web3c compiled w)) =
             EvEstimateGasMethod c (heap w (tc_transaction self)) (tc_method_name self)
               (tc_arguments self) # evs)
       \<and> (estimateGas_method web3c c (heap w (tc_transaction self)) (tc_method_name self)
             (tc_arguments self) = Inr E
          \<longrightarrow> (\<exists>evs. new_events w (snd (TransactContract_execute self web3c compiled w)) =
                 EvEstimateGasMethod c (heap w (tc_transaction self)) (tc_method_name self)
                   (tc_arguments self) # EvGetBlockGasLimit # evs))
       \<and> (estimateGas_method web3c c (heap w (tc_transaction self)) (tc_method_name self)
             (tc_arguments self) = Inr E
          \<and> get_block_gas_limit web3c = Inr L \<and> L < E
          \<longrightarrow> fst (TransactContract_execute self web3c compiled w) =
                 Inl (ValueError
                   ''Contract transaction appears to execeed the block gas limit'')
              \<and> new_events w (snd (TransactContract_execute self web3c compiled w)) =
                 [EvEstimateGasMethod c (heap w (tc_transaction self)) (tc_method_name self)
                    (tc_arguments self),
                  EvGetBlockGasLimit])
       \<and> (estimateGas_method web3c c (heap w (tc_transaction self)) (tc_method_name self)
             (tc_arguments self) = Inr E
          \<and> get_block_gas_limit web3c = Inr L \<and> E \<le> L
          \<longrightarrow> heap (snd (TransactContract_execute self web3c compiled w)) (next_ref w) =
                 (heap w (tc_transaction self))(''gas'' \<mapsto> VInt (min L (E + 100000)))
              \<and> next_ref w < next_ref (snd (TransactContract_execute self web3c compiled w)))"
proof -
  have flag: "tc_auto_gas self"
    using assms(1) by (rule TransactContract_init_auto_gas)
  note first = TransactContract_estimates_first
    [where compiled = compiled and web3c = web3c, OF flag assms(2,3)]
  note second = TransactContract_reads_limit
    [where compiled = compiled and web3c = web3c and E = E, OF flag assms(2,3)]
  note over = TransactContract_over_limit
    [where compiled = compiled and web3c = web3c and E = E and L = L, OF flag assms(2,3)]
  note budget = TransactContract_budget_written
    [where compiled = compiled and web3c = web3c and E = E and L = L, OF flag assms(2,3)]
  from flag first second over budget show ?thesis
    by blast
qed

theorem TransactContract_auto_gas_forced_witness:
  "TransactContract_init ''Greeter'' ''setGreeting'' (Given (Some [VText ''Guten Tag'']))
     Omitted (Given (Some ''0xc0de'')) (Given False) (Given (Some 30)) empty_world =
     (Inr set_greeting, one_dict_world)
   \<and> tc_auto_gas set_greeting
   \<and> estimateGas_method test_client (greeter_contract (Some ''0xc0de'')) Map.empty
        ''setGreeting'' [VText ''Guten Tag''] = Inr 30000
   \<and> get_block_gas_limit test_client = Inr 3141592
   \<and> (\<exists>evs. new_events one_dict_world
        (snd (TransactContract_execute set_greeting test_client greeter_compiled
           one_dict_world)) =
      EvEstimateGasMethod (greeter_contract (Some ''0xc0de'')) Map.empty ''setGreeting''
         [VText ''Guten Tag''] # EvGetBlockGasLimit # evs)
   \<and> heap (snd (TransactContract_execute set_greeting test_client greeter_compiled
         one_dict_world)) 1 = [''gas'' \<mapsto> VInt 130000]
   \<and> get_block_gas_limit low_limit_client = Inr 20000
   \<and> fst (TransactContract_execute set_greeting low_limit_client greeter_compiled
         one_dict_world) =
       Inl (ValueError ''Contract transaction appears to execeed the block gas limit'')"
proof -
  have i: "TransactContract_init ''Greeter'' ''setGreeting'' (Given (Some [VText ''Guten Tag'']))
     Omitted (Given (Some ''0xc0de'')) (Given False) (Given (Some 30)) empty_world =
     (Inr set_greeting, one_dict_world)"
    by (rule set_greeting_init)
  have c: "greeter_compiled (tc_contract_name set_greeting) = Some greeter_artifact"
    by (simp add: greeter_compiled_def set_greeting_def)
  have f: "fst (contract_of (tc_contract_address set_greeting) greeter_artifact one_dict_world) =
      Inr (greeter_contract (Some ''0xc0de''))"
    by (simp add: greeter_contract_of set_greeting_def)
  have t: "heap one_dict_world (tc_transaction set_greeting) = Map.empty"
    and n: "next_ref one_dict_world = 1"
    by (simp_all add: one_dict_world_def set_greeting_def)
  have m: "tc_method_name set_greeting = ''setGreeting''"
    and a: "tc_arguments set_greeting = [VText ''Guten Tag'']"
    by (simp_all add: set_greeting_def)
  have e: "estimateGas_method test_client (greeter_contract (Some ''0xc0de'')) Map.empty
        ''setGreeting'' [VText ''Guten Tag''] = Inr 30000"
    and l: "get_block_gas_limit test_client = Inr 3141592"
    by (simp_all add: test_client_def)
  have e': "estimateGas_method low_limit_client (greeter_contract (Some ''0xc0de'')) Map.empty
        ''setGreeting'' [VText ''Guten Tag''] = Inr 30000"
    and l': "get_block_gas_limit low_limit_client = Inr 20000"
    by (simp_all add: low_limit_client_def test_client_def)
  show ?thesis
    using i e l e' l'
      TransactContract_auto_gas_forced
        [where compiled = greeter_compiled and web3c = test_client and E = 30000
           and L = 3141592, OF i c f]
      TransactContract_auto_gas_forced
        [where compiled = greeter_compiled and web3c = low_limit_client and E = 30000
           and L = 20000, OF i c f]
    by (simp add: t m a n)
qed

subsection \<open>Gas budgeting\<close>

text \<open>
  C1. The claim holds for \<^verbatim>\<open>DeployContract\<close> (lemma \<open>DeployContract_submits\<close>) and fails
  for \<^verbatim>\<open>TransactContract\<close>: its \<^verbatim>\<open>execute\<close> writes the budgeted gas into the copy
  \<^verbatim>\<open>transaction\<close> and then passes \<^verbatim>\<open>self.transaction\<close> to \<^verbatim>\<open>contract.transact\<close>. On
  the test network the estimate of \<^verbatim>\<open>setGreeting\<close> is 30000 and the block gas limit is
  3141592, so the claim asks for a gas field of 130000; the transaction that is submitted
  has no gas field. The deployment of \<^verbatim>\<open>Greeter\<close>, with an estimate of 50000, is submitted
  with a gas field of 150000.
\<close>

theorem TransactContract_submits_without_budgeted_gas:
  "TransactContract_init ''Greeter'' ''setGreeting'' (Given (Some [VText ''Guten Tag'']))
     Omitted (Given (Some ''0xc0de'')) (Given True) (Given (Some 30)) empty_world =
     (Inr set_greeting, one_dict_world)
   \<and> estimateGas_method test_client (greeter_contract (Some ''0xc0de'')) Map.empty
        ''setGreeting'' [VText ''Guten Tag''] = Inr 30000
   \<and> get_block_gas_limit test_client = Inr 3141592
   \<and> map gas_field
        (submitted (new_events one_dict_world
           (snd (TransactContract_execute set_greeting test_client greeter_compiled
              one_dict_world)))) = [None]
   \<and> map gas_field
        (submitted (new_events one_dict_world
           (snd (DeployContract_execute deploy_greeter test_client greeter_compiled
              one_dict_world)))) = [Some (VInt 150000)]"
proof (intro conjI)
  show "TransactContract_init ''Greeter'' ''setGreeting'' (Given (Some [VText ''Guten Tag'']))
     Omitted (Given (Some ''0xc0de'')) (Given True) (Given (Some 30)) empty_world =
     (Inr set_greeting, one_dict_world)"
    by (rule set_greeting_init)
  show "estimateGas_method test_client (greeter_contract (Some ''0xc0de'')) Map.empty
        ''setGreeting'' [VText ''Guten Tag''] = Inr 30000"
    by (simp add: test_client_def)
  show "get_block_gas_limit test_client = Inr 3141592"
    by (simp add: test_client_def)
  show "map gas_field
        (submitted (new_events one_dict_world
           (snd (TransactContract_execute set_greeting test_client greeter_compiled
              one_dict_world)))) = [None]"
    by (simp add: TransactContract_execute_def contract_of_def prog_defs scenario_defs
          new_events_def submitted_simps gas_field_def)
  show "map gas_field
        (submitted (new_events one_dict_world
           (snd (DeployContract_execute deploy_greeter test_client greeter_compiled
              one_dict_world)))) = [Some (VInt 150000)]"
    by (simp add: DeployContract_execute_def contract_of_def prog_defs scenario_defs
          new_events_def submitted_simps gas_field_def)
qed

text \<open>
  C4. With \<^verbatim>\<open>auto_gas\<close> on, when the estimate \<open>E\<close> is above the block gas limit \<open>L\<close>,
  \<^verbatim>\<open>execute\<close> of \<^verbatim>\<open>DeployContract\<close> and of \<^verbatim>\<open>TransactContract\<close> raises the gas-limit
  \<^verbatim>\<open>ValueError\<close>. The only calls made to the network are the estimate and the reading of
  the block gas limit: no transaction is submitted.
\<close>

theorem gas_estimate_above_block_limit_aborts:
  "(dc_auto_gas dself
      \<and> dcompiled (dc_contract_name dself) = Some ddata
      \<and> fst (contract_of None ddata dw) = Inr factory
      \<and> encodeConstructorData dclient factory (dc_arguments dself) = Inr deploy_data
      \<and> estimateGas dclient ((heap dw (dc_transaction dself))(''data'' \<mapsto> deploy_data)) = Inr dE
      \<and> get_block_gas_limit dclient = Inr dL
      \<and> dL < dE
    \<longrightarrow> fst (DeployContract_execute dself dclient dcompiled dw) =
           Inl (ValueError (''Contract does not appear to be delpoyable within the '' @
               ''current network gas limits''))
      \<and> new_events dw (snd (DeployContract_execute dself dclient dcompiled dw)) =
           [EvEstimateGas ((heap dw (dc_transaction dself))(''data'' \<mapsto> deploy_data)),
            EvGetBlockGasLimit]
      \<and> submitted (new_events dw (snd (DeployContract_execute dself dclient dcompiled dw))) = [])
   \<and> (tc_auto_gas tself
      \<and> tcompiled (tc_contract_name tself) = Some tdata
      \<and> fst (contract_of (tc_contract_address tself) tdata tw) = Inr c
      \<and> estimateGas_method tclient c (heap tw (tc_transaction tself)) (tc_method_name tself)
           (tc_arguments tself) = Inr tE
      \<and> get_block_gas_limit tclient = Inr tL
      \<and> tL < tE
    \<longrightarrow> fst (TransactContract_execute tself tclient tcompiled tw) =
           Inl (ValueError ''Contract transaction appears to execeed the block gas limit'')
      \<and> new_events tw (snd (TransactContract_execute tself tclient tcompiled tw)) =
           [EvEstimateGasMethod c (heap tw (tc_transaction tself)) (tc_method_name tself)
              (tc_arguments tself),
            EvGetBlockGasLimit]
      \<and> submitted (new_events tw (snd (TransactContract_execute tself tclient tcompiled tw))) = [])"
proof (intro conjI impI)
  assume d: "dc_auto_gas dself
      \<and> dcompiled (dc_contract_name dself) = Some ddata
      \<and> fst (contract_of None ddata dw) = Inr factory
      \<and> encodeConstructorData dclient factory (dc_arguments dself) = Inr deploy_data
      \<and> estimateGas dclient ((heap dw (dc_transaction dself))(''data'' \<mapsto> deploy_data)) = Inr dE
      \<and> get_block_gas_limit dclient = Inr dL
      \<and> dL < dE"
  then have r: "fst (DeployContract_execute dself dclient dcompiled dw) =
           Inl (ValueError (''Contract does not appear to be delpoyable within the '' @
               ''current network gas limits''))
      \<and> new_events dw (snd (DeployContract_execute dself dclient dcompiled dw)) =
           [EvEstimateGas ((heap dw (dc_transaction dself))(''data'' \<mapsto> deploy_data)),
            EvGetBlockGasLimit]"
    by (intro DeployContract_over_limit
          [where contract_data = ddata and factory = factory and deploy_data = deploy_data
             and E = dE and L = dL]) simp_all
  from r show "fst (DeployContract_execute dself dclient dcompiled dw) =
           Inl (ValueError (''Contract does not appear to be delpoyable within the '' @
               ''current network gas limits''))"
    by simp
  from r show "new_events dw (snd (DeployContract_execute dself dclient dcompiled dw)) =
           [EvEstimateGas ((heap dw (dc_transaction dself))(''data'' \<mapsto> deploy_data)),
            EvGetBlockGasLimit]"
    by simp
  from r show "submitted (new_events dw (snd (DeployContract_execute dself dclient dcompiled dw)))
       = []"
    by (simp add: submitted_simps)
next
  assume t: "tc_auto_gas tself
      \<and> tcompiled (tc_contract_name tself) = Some tdata
      \<and> fst (contract_of (tc_contract_address tself) tdata tw) = Inr c
      \<and> estimateGas_method tclient c (heap tw (tc_transaction tself)) (tc_method_name tself)
           (tc_arguments tself) = Inr tE
      \<and> get_block_gas_limit tclient = Inr tL
      \<and> tL < tE"
  then have r: "fst (TransactContract_execute tself tclient tcompiled tw) =
           Inl (ValueError ''Contract transaction appears to execeed the block gas limit'')
      \<and> new_events tw (snd (TransactContract_execute tself tclient tcompiled tw)) =
           [EvEstimateGasMethod c (heap tw (tc_transaction tself)) (tc_method_name tself)
              (tc_arguments tself),
            EvGetBlockGasLimit]"
    by (intro TransactContract_over_limit
          [where contract_data = tdata and c = c and E = tE and L = tL]) simp_all
  from r show "fst (TransactContract_execute tself tclient tcompiled tw) =
           Inl (ValueError ''Contract transaction appears to execeed the block gas limit'')"
    by simp
  from r show "new_events tw (snd (TransactContract_execute tself tclient tcompiled tw)) =
           [EvEstimateGasMethod c (heap tw (tc_transaction tself)) (tc_method_name tself)
              (tc_arguments tself),
            EvGetBlockGasLimit]"
    by simp
  from r show "submitted (new_events tw (snd (TransactContract_execute tself tclient tcompiled tw)))
       = []"
    by (simp add: submitted_simps)
qed

theorem gas_estimate_above_block_limit_aborts_witness:
  "get_block_gas_limit low_limit_client = Inr 20000
   \<and> fst (DeployContract_execute deploy_greeter low_limit_client greeter_compiled
          one_dict_world) =
       Inl (ValueError (''Contract does not appear to be delpoyable within the '' @
               ''current network gas limits''))
   \<and> submitted (new_events one_dict_world
        (snd (DeployContract_execute deploy_greeter low_limit_client greeter_compiled
           one_dict_world))) = []
   \<and> fst (TransactContract_execute set_greeting low_limit_client greeter_compiled
          one_dict_world) =
       Inl (ValueError ''Contract transaction appears to execeed the block gas limit'')
   \<and> submitted (new_events one_dict_world
        (snd (TransactContract_execute set_greeting low_limit_client greeter_compiled
           one_dict_world))) = []"
proof -
  have l: "get_block_gas_limit low_limit_client = Inr 20000"
    by (simp add: low_limit_client_def)
  have d: "dc_auto_gas deploy_greeter
      \<and> greeter_compiled (dc_contract_name deploy_greeter) = Some greeter_artifact
      \<and> fst (contract_of None greeter_artifact one_dict_world) = Inr (greeter_contract None)
      \<and> encodeConstructorData low_limit_client (greeter_contract None)
          (dc_arguments deploy_greeter) = Inr (VText ''0x6060'')
      \<and> estimateGas low_limit_client
          ((heap one_dict_world (dc_transaction deploy_greeter))(''data'' \<mapsto> VText ''0x6060'')) =
          Inr 50000
      \<and> get_block_gas_limit low_limit_client = Inr 20000
      \<and> (20000::int) < 50000"
    by (simp add: greeter_contract_of deploy_greeter_def greeter_compiled_def
          low_limit_client_def test_client_def)
  have t: "tc_auto_gas set_greeting
      \<and> greeter_compiled (tc_contract_name set_greeting) = Some greeter_artifact
      \<and> fst (contract_of (tc_contract_address set_greeting) greeter_artifact one_dict_world) =
          Inr (greeter_contract (Some ''0xc0de''))
      \<and> estimateGas_method low_limit_client (greeter_contract (Some ''0xc0de''))
          (heap one_dict_world (tc_transaction set_greeting)) (tc_method_name set_greeting)
          (tc_arguments set_greeting) = Inr 30000
      \<and> get_block_gas_limit low_limit_client = Inr 20000
      \<and> (20000::int) < 30000"
    by (simp add: greeter_contract_of set_greeting_def greeter_compiled_def
          low_limit_client_def test_client_def)
  show ?thesis
    using l d t
      gas_estimate_above_block_limit_aborts
        [where dself = deploy_greeter and dcompiled = greeter_compiled
           and ddata = greeter_artifact and dw = one_dict_world
           and factory = "greeter_contract None" and dclient = low_limit_client
           and deploy_data = "VText ''0x6060''" and dE = 50000 and dL = 20000
           and tself = set_greeting and tcompiled = greeter_compiled
           and tdata = greeter_artifact and tw = one_dict_world
           and c = "greeter_contract (Some ''0xc0de'')" and tclient = low_limit_client
           and tE = 30000 and tL = 20000]
    by (simp add: submitted_simps)
qed

subsection \<open>Confirmation\<close>

text \<open>
  C3. The default of the \<^verbatim>\<open>timeout\<close> argument of \<^verbatim>\<open>SendTransaction\<close> is 120, as claimed.
  Passing \<^verbatim>\<open>timeout=None\<close> does not disable the confirmation: the constructor then leaves
  \<^verbatim>\<open>self.timeout\<close> unassigned, and the class attribute \<^verbatim>\<open>timeout = 30\<close> is what
  \<^verbatim>\<open>execute\<close> reads. On the test network \<^verbatim>\<open>execute\<close> submits the transaction and then
  waits for its receipt, with a timeout of 30.
\<close>

theorem SendTransaction_timeout_None_still_waits:
  "st_timeout (SendTransaction_init 0 Omitted) = Some 120
   \<and> st_timeout (SendTransaction_init 0 (Given None)) = Some 30
   \<and> SendTransaction_execute (SendTransaction_init 0 (Given None)) test_client one_dict_world =
       (Inr [''transaction-hash'' \<mapsto> RHash ''0xaa''],
        one_dict_world\<lparr>log := [EvSendTransaction Map.empty, EvWaitForReceipt ''0xaa'' 30]\<rparr>)"
  by (simp add: SendTransaction_init_def SendTransaction_execute_def prog_defs
        test_client_def one_dict_world_def)

subsection \<open>The result of a deployment\<close>

text \<open>
  C5. A successful \<^verbatim>\<open>execute\<close> of a \<^verbatim>\<open>DeployContract\<close> with a timeout returns
  exactly three entries: the contract address, which is the one read from the receipt of
  the deploy transaction; the hash of the deploy transaction; and a deferred value whose
  key is \<^verbatim>\<open>contract/<contract name>\<close> and which resolves to the contract address. Without
  a timeout the result has the hash of the deploy transaction as its only entry. In both
  cases the hash is the one that the \<^verbatim>\<open>deploy\<close> call of this run answered, made with
  the arguments of the operation.
\<close>

theorem DeployContract_execute_result:
  assumes "DeployContract_execute self web3c compiled w = (Inr res, w')"
  shows "(case dc_timeout self of
            Some t \<Rightarrow>
              (\<exists>a h. res = [''contract-address'' \<mapsto> RAddress a,
                             ''deploy-transaction-hash'' \<mapsto> RHash h,
                             ''canonical-contract-address'' \<mapsto>
                               RDeferred (Address_defer (''contract/'' @ dc_contract_name self) a)]
                 \<and> key (Address_defer (''contract/'' @ dc_contract_name self) a) =
                     ''contract/'' @ dc_contract_name self
                 \<and> resolve (Address_defer (''contract/'' @ dc_contract_name self) a) = a
                 \<and> get_contract_address_from_txn web3c h t = Inr a
                 \<and> EvGetContractAddress h t \<in> set (new_events w w')
                 \<and> (\<exists>c txn. deploy web3c c txn (dc_arguments self) = Inr h
                       \<and> EvDeploy c txn (dc_arguments self) \<in> set (new_events w w')))
          | None \<Rightarrow>
              (\<exists>h. res = [''deploy-transaction-hash'' \<mapsto> RHash h]
                 \<and> (\<exists>c txn. deploy web3c c txn (dc_arguments self) = Inr h
                       \<and> EvDeploy c txn (dc_arguments self) \<in> set (new_events w w'))))"
  using assms unfolding DeployContract_execute_def contract_of_def new_events_def
  by (auto simp add: prog_defs key_Address_defer resolve_Address_defer
        split: sum.splits option.splits prod.splits if_splits)

lemma deploy_greeter_run:
  "fst (DeployContract_execute deploy_greeter test_client greeter_compiled one_dict_world) =
     Inr [''contract-address'' \<mapsto> RAddress ''0xc0de'',
          ''deploy-transaction-hash'' \<mapsto> RHash ''0xbb'',
          ''canonical-contract-address'' \<mapsto>
             RDeferred (Address_defer ''contract/Greeter'' ''0xc0de'')]"
  by (simp add: DeployContract_execute_def contract_of_def prog_defs scenario_defs)

lemma deploy_greeter_unconfirmed_run:
  "fst (DeployContract_execute deploy_greeter_unconfirmed test_client greeter_compiled
          one_dict_world) =
     Inr [''deploy-transaction-hash'' \<mapsto> RHash ''0xbb'']"
  by (simp add: DeployContract_execute_def contract_of_def prog_defs scenario_defs)

lemma run_pair: "fst p = a \<Longrightarrow> p = (a, snd p)"
  by (cases p) simp

theorem DeployContract_execute_result_witness:
  "fst (DeployContract_execute deploy_greeter test_client greeter_compiled one_dict_world) =
     Inr [''contract-address'' \<mapsto> RAddress ''0xc0de'',
          ''deploy-transaction-hash'' \<mapsto> RHash ''0xbb'',
          ''canonical-contract-address'' \<mapsto>
             RDeferred (Address_defer ''contract/Greeter'' ''0xc0de'')]
   \<and> dc_timeout deploy_greeter = Some 30
   \<and> (\<exists>a h. [''contract-address'' \<mapsto> RAddress ''0xc0de'',
               ''deploy-transaction-hash'' \<mapsto> RHash ''0xbb'',
               ''canonical-contract-address'' \<mapsto>
                  RDeferred (Address_defer ''contract/Greeter'' ''0xc0de'')] =
              [''contract-address'' \<mapsto> RAddress a,
               ''deploy-transaction-hash'' \<mapsto> RHash h,
               ''canonical-contract-address'' \<mapsto>
                  RDeferred (Address_defer (''contract/'' @ dc_contract_name deploy_greeter) a)]
          \<and> resolve (Address_defer (''contract/'' @ dc_contract_name deploy_greeter) a) = a
          \<and> (\<exists>c txn. deploy test_client c txn (dc_arguments deploy_greeter) = Inr h
                \<and> EvDeploy c txn (dc_arguments deploy_greeter) \<in>
                    set (new_events one_dict_world
                      (snd (DeployContract_execute deploy_greeter test_client
                         greeter_compiled one_dict_world)))))
   \<and> fst (DeployContract_execute deploy_greeter_unconfirmed test_client greeter_compiled
            one_dict_world) =
       Inr [''deploy-transaction-hash'' \<mapsto> RHash ''0xbb'']
   \<and> dc_timeout deploy_greeter_unconfirmed = None
   \<and> (\<exists>h. [''deploy-transaction-hash'' \<mapsto> RHash ''0xbb''] =
             [''deploy-transaction-hash'' \<mapsto> RHash h]
          \<and> (\<exists>c txn. deploy test_client c txn (dc_arguments deploy_greeter_unconfirmed) = Inr h
                \<and> EvDeploy c txn (dc_arguments deploy_greeter_unconfirmed) \<in>
                    set (new_events one_dict_world
                      (snd (DeployContract_execute deploy_greeter_unconfirmed test_client
                         greeter_compiled one_dict_world)))))"
proof -
  have t1: "dc_timeout deploy_greeter = Some 30"
    by (simp add: deploy_greeter_def)
  have t2: "dc_timeout deploy_greeter_unconfirmed = None"
    by (simp add: deploy_greeter_unconfirmed_def)
  note r1 = DeployContract_execute_result [OF run_pair [OF deploy_greeter_run]]
  note r2 = DeployContract_execute_result [OF run_pair [OF deploy_greeter_unconfirmed_run]]
  from r1 t1 have c1: "\<exists>a h. [''contract-address'' \<mapsto> RAddress ''0xc0de'',
               ''deploy-transaction-hash'' \<mapsto> RHash ''0xbb'',
               ''canonical-contract-address'' \<mapsto>
                  RDeferred (Address_defer ''contract/Greeter'' ''0xc0de'')] =
              [''contract-address'' \<mapsto> RAddress a,
               ''deploy-transaction-hash'' \<mapsto> RHash h,
               ''canonical-contract-address'' \<mapsto>
                  RDeferred (Address_defer (''contract/'' @ dc_contract_name deploy_greeter) a)]
          \<and> resolve (Address_defer (''contract/'' @ dc_contract_name deploy_greeter) a) = a
          \<and> (\<exists>c txn. deploy test_client c txn (dc_arguments deploy_greeter) = Inr h
                \<and> EvDeploy c txn (dc_arguments deploy_greeter) \<in>
                    set (new_events one_dict_world
                      (snd (DeployContract_execute deploy_greeter test_client
                         greeter_compiled one_dict_world))))"
    by (simp only: option.case) blast
  from r2 t2 have c2: "\<exists>h. [''deploy-transaction-hash'' \<mapsto> RHash ''0xbb''] =
             [''deploy-transaction-hash'' \<mapsto> RHash h]
          \<and> (\<exists>c txn. deploy test_client c txn (dc_arguments deploy_greeter_unconfirmed) = Inr h
                \<and> EvDeploy c txn (dc_arguments deploy_greeter_unconfirmed) \<in>
                    set (new_events one_dict_world
                      (snd (DeployContract_execute deploy_greeter_unconfirmed test_client
                         greeter_compiled one_dict_world))))"
    by (simp only: option.case)
  from deploy_greeter_run deploy_greeter_unconfirmed_run t1 t2 c1 c2 show ?thesis
    by (intro conjI)
qed

text \<open>
  C6. With \<^verbatim>\<open>verify\<close> on and a timeout, when the text of the code read at the new address
  is not the text of the runtime code of the contract factory, \<^verbatim>\<open>execute\<close> raises the
  deployment \<^verbatim>\<open>ValueError\<close>. By then the deploy transaction has been submitted (it is
  the one transaction submitted) and its receipt has been waited for. The transaction
  \<open>txn\<close> is the stored spec, with the budgeted gas when \<^verbatim>\<open>auto_gas\<close> is on. The two codes
  are compared as \<^verbatim>\<open>force_text\<close> returns them.
\<close>

theorem DeployContract_verification_failure:
  assumes "dc_verify self" and "dc_timeout self = Some t"
    and "compiled (dc_contract_name self) = Some contract_data"
    and "fst (contract_of None contract_data w) = Inr factory"
    and "\<not> dc_auto_gas self \<and> txn = heap w (dc_transaction self)
         \<or> dc_auto_gas self
           \<and> encodeConstructorData web3c factory (dc_arguments self) = Inr deploy_data
           \<and> estimateGas web3c ((heap w (dc_transaction self))(''data'' \<mapsto> deploy_data)) =
               Inr E
           \<and> get_block_gas_limit web3c = Inr L \<and> E \<le> L
           \<and> txn = (heap w (dc_transaction self))(''gas'' \<mapsto> VInt (min L (E + 100000)))"
    and "deploy web3c factory txn (dc_arguments self) = Inr h"
    and "get_contract_address_from_txn web3c h t = Inr a"
    and "getCode web3c a = Inr code"
    and "force_text web3c code = Inr code_text"
    and "force_text web3c (c_code_runtime factory) = Inr runtime_text"
    and "code_text \<noteq> runtime_text"
  shows "fst (DeployContract_execute self web3c compiled w) =
           Inl (ValueError ''An error occured during deployment of the contract.'')
         \<and> submitted (new_events w (snd (DeployContract_execute self web3c compiled w))) =
             [txn]
         \<and> EvGetContractAddress h t \<in>
             set (new_events w (snd (DeployContract_execute self web3c compiled w)))"
  using assms unfolding DeployContract_execute_def new_events_def
  by (auto simp add: prog_defs contract_of_Inr submitted_simps)

theorem DeployContract_verification_failure_witness:
  "getCode wrong_code_client ''0xc0de'' = Inr (VText ''0x00'')
   \<and> c_code_runtime (greeter_contract None) = VText ''0x60''
   \<and> fst (DeployContract_execute deploy_greeter wrong_code_client greeter_compiled
          one_dict_world) =
       Inl (ValueError ''An error occured during deployment of the contract.'')
   \<and> submitted (new_events one_dict_world
        (snd (DeployContract_execute deploy_greeter wrong_code_client greeter_compiled
           one_dict_world))) = [[''gas'' \<mapsto> VInt 150000]]
   \<and> EvGetContractAddress ''0xbb'' 30 \<in>
        set (new_events one_dict_world
          (snd (DeployContract_execute deploy_greeter wrong_code_client greeter_compiled
             one_dict_world)))"
proof -
  have v: "dc_verify deploy_greeter" and t: "dc_timeout deploy_greeter = Some 30"
    by (simp_all add: deploy_greeter_def)
  have c: "greeter_compiled (dc_contract_name deploy_greeter) = Some greeter_artifact"
    by (simp add: greeter_compiled_def deploy_greeter_def)
  have f: "fst (contract_of None greeter_artifact one_dict_world) = Inr (greeter_contract None)"
    by (simp add: greeter_contract_of)
  have g: "\<not> dc_auto_gas deploy_greeter
           \<and> [''gas'' \<mapsto> VInt 150000] = heap one_dict_world (dc_transaction deploy_greeter)
         \<or> dc_auto_gas deploy_greeter
           \<and> encodeConstructorData wrong_code_client (greeter_contract None)
               (dc_arguments deploy_greeter) = Inr (VText ''0x6060'')
           \<and> estimateGas wrong_code_client
               ((heap one_dict_world (dc_transaction deploy_greeter))
                  (''data'' \<mapsto> VText ''0x6060'')) = Inr 50000
           \<and> get_block_gas_limit wrong_code_client = Inr 3141592 \<and> (50000::int) \<le> 3141592
           \<and> [''gas'' \<mapsto> VInt 150000] =
               (heap one_dict_world (dc_transaction deploy_greeter))
                 (''gas'' \<mapsto> VInt (min 3141592 (50000 + 100000)))"
    by (simp add: deploy_greeter_def wrong_code_client_def test_client_def one_dict_world_def)
  have d: "deploy wrong_code_client (greeter_contract None) [''gas'' \<mapsto> VInt 150000]
             (dc_arguments deploy_greeter) = Inr ''0xbb''"
    and r: "get_contract_address_from_txn wrong_code_client ''0xbb'' 30 = Inr ''0xc0de''"
    and k: "getCode wrong_code_client ''0xc0de'' = Inr (VText ''0x00'')"
    and x: "force_text wrong_code_client (VText ''0x00'') = Inr ''0x00''"
    and y: "force_text wrong_code_client (c_code_runtime (greeter_contract None)) = Inr ''0x60''"
    and z: "''0x00'' \<noteq> ''0x60''"
    and q: "c_code_runtime (greeter_contract None) = VText ''0x60''"
    by (simp_all add: wrong_code_client_def test_client_def greeter_contract_def)
  show ?thesis
    using k q
      DeployContract_verification_failure
        [where compiled = greeter_compiled and web3c = wrong_code_client, OF v t c f g d r k x y z]
    by simp
qed

subsection \<open>Every operation\<close>




text \<open>
  C10. A dictionary that is in the store when \<^verbatim>\<open>execute\<close> starts is the same when it ends:
  for every operation that holds a transaction spec, the stored spec \<open>r\<close> is unchanged by
  \<^verbatim>\<open>execute\<close>. The budgeted gas (and the \<^verbatim>\<open>data\<close> field of the estimate) are written to
  the copies that \<^verbatim>\<open>execute\<close> makes, which are new objects. The constructors of
  \<^verbatim>\<open>DeployContract\<close> and \<^verbatim>\<open>TransactContract\<close> do not change a dictionary either: they only
  read the spec they are given. The collaborators are taken not to update the
  dictionaries they receive.
\<close>

theorem stored_transaction_spec_unchanged:
  assumes "r < next_ref w"
  shows "(transaction_ref op = Some r \<longrightarrow> heap (snd (execute op kw w)) r = heap w r)
       \<and> heap (snd (DeployContract_execute dself web3c compiled w)) r = heap w r
       \<and> heap (snd (TransactContract_execute tself web3c compiled w)) r = heap w r
       \<and> heap (snd (DeployContract_init contract_name transaction_arg arguments_arg
                       verify_arg auto_gas_arg timeout_arg w)) r = heap w r
       \<and> heap (snd (TransactContract_init tc_name method_name tc_arguments_arg
                       tc_transaction_arg contract_address_arg tc_auto_gas_arg
                       tc_timeout_arg w)) r = heap w r"
proof -
  have "transaction_ref op = Some r \<longrightarrow> heap (snd (execute op kw w)) r = heap w r"
  proof (cases op)
    case OpOperation
    then show ?thesis by simp
  next
    case (OpRunPython self)
    then show ?thesis by simp
  next
    case (OpSendTransaction self)
    with assms show ?thesis by (simp add: SendTransaction_execute_frame)
  next
    case (OpDeployContract self)
    with assms show ?thesis by (simp add: DeployContract_execute_frame)
  next
    case (OpTransactContract self)
    with assms show ?thesis by (simp add: TransactContract_execute_frame)
  next
    case (OpDeployRegistrar self)
    with assms show ?thesis by (simp add: DeployRegistrar_execute_frame)
  qed
  with assms show ?thesis
    by (simp add: DeployContract_execute_frame TransactContract_execute_frame
          DeployContract_init_frame TransactContract_init_frame)
qed

theorem stored_transaction_spec_unchanged_witness:
  "(0::nat) < next_ref one_dict_world
   \<and> transaction_ref (OpTransactContract set_greeting) = Some 0
   \<and> heap (snd (execute (OpTransactContract set_greeting) test_kwargs one_dict_world)) 0 =
       heap one_dict_world 0
   \<and> heap (snd (DeployContract_execute deploy_greeter test_client greeter_compiled
         one_dict_world)) 0 = heap one_dict_world 0"
proof -
  have a: "(0::nat) < next_ref one_dict_world"
    by (simp add: one_dict_world_def)
  have t: "transaction_ref (OpTransactContract set_greeting) = Some 0"
    by (simp add: set_greeting_def)
  show ?thesis
    using a t
      stored_transaction_spec_unchanged
        [OF a, where op = "OpTransactContract set_greeting" and kw = test_kwargs
           and dself = deploy_greeter and web3c = test_client and compiled = greeter_compiled]
    by simp
qed

end
